theory Spec2Isabelle
  imports Complex_Main
begin

section \<open>JavaScript numbers\<close>

text \<open>
  The program is TypeScript and every quantity in it is a JavaScript \<^verbatim>\<open>number\<close>.
  A number is modelled as an exact real or one of the three special values that
  the arithmetic of the language produces instead of raising: a division by zero
  gives an infinity or NaN and the computation goes on. The operations below
  follow the language's rules for the special values. Two things are idealised:
  finite results are exact (no rounding, no overflow to an infinity), and zero
  carries no sign (a division by zero takes the sign of the numerator).

  The language computes with binary floating-point numbers of 53 significant
  bits, so a finite result of the program is the rounded one. A statement below
  that is written with the operations \<open>js_add\<close>, \<open>js_sub\<close>, \<open>js_mul\<close>, \<open>js_div\<close>
  themselves says which operations the program applies and in which order, and
  does not depend on the rounding. A statement that gives a result as a real
  number is about exact arithmetic; it is the program's result where no
  operation rounds, as on whole numbers below \<open>2 ^ 53\<close>.
\<close>

datatype number = Fin real | PInf | NInf | NaN

fun js_neg :: "number \<Rightarrow> number" where
  "js_neg (Fin a) = Fin (- a)"
| "js_neg PInf = NInf"
| "js_neg NInf = PInf"
| "js_neg NaN = NaN"

fun js_add :: "number \<Rightarrow> number \<Rightarrow> number" where
  "js_add NaN y = NaN"
| "js_add x NaN = NaN"
| "js_add (Fin a) (Fin b) = Fin (a + b)"
| "js_add (Fin a) y = y"
| "js_add PInf NInf = NaN"
| "js_add NInf PInf = NaN"
| "js_add x y = x"

definition js_sub :: "number \<Rightarrow> number \<Rightarrow> number" where
  "js_sub x y = js_add x (js_neg y)"

text \<open>The sign of an infinite product or quotient: \<open>inf_of True\<close> is \<open>+Infinity\<close>.\<close>

definition inf_of :: "bool \<Rightarrow> number" where
  "inf_of positive = (if positive then PInf else NInf)"

fun js_mul :: "number \<Rightarrow> number \<Rightarrow> number" where
  "js_mul NaN y = NaN"
| "js_mul x NaN = NaN"
| "js_mul (Fin a) (Fin b) = Fin (a * b)"
| "js_mul (Fin a) PInf = (if a = 0 then NaN else inf_of (0 < a))"
| "js_mul (Fin a) NInf = (if a = 0 then NaN else inf_of (a < 0))"
| "js_mul PInf (Fin b) = (if b = 0 then NaN else inf_of (0 < b))"
| "js_mul NInf (Fin b) = (if b = 0 then NaN else inf_of (b < 0))"
| "js_mul PInf PInf = PInf"
| "js_mul PInf NInf = NInf"
| "js_mul NInf PInf = NInf"
| "js_mul NInf NInf = PInf"

fun js_div :: "number \<Rightarrow> number \<Rightarrow> number" where
  "js_div NaN y = NaN"
| "js_div x NaN = NaN"
| "js_div (Fin a) (Fin b) =
     (if b = 0 then (if a = 0 then NaN else inf_of (0 < a)) else Fin (a / b))"
| "js_div (Fin a) y = Fin 0"
| "js_div PInf (Fin b) = inf_of (0 \<le> b)"
| "js_div NInf (Fin b) = inf_of (b < 0)"
| "js_div x y = NaN"

text \<open>\<^verbatim>\<open>Math.min\<close> and \<^verbatim>\<open>Math.max\<close>: NaN if an argument is NaN.\<close>

fun js_min :: "number \<Rightarrow> number \<Rightarrow> number" where
  "js_min NaN y = NaN"
| "js_min x NaN = NaN"
| "js_min NInf y = NInf"
| "js_min x NInf = NInf"
| "js_min PInf y = y"
| "js_min x PInf = x"
| "js_min (Fin a) (Fin b) = Fin (min a b)"

fun js_max :: "number \<Rightarrow> number \<Rightarrow> number" where
  "js_max NaN y = NaN"
| "js_max x NaN = NaN"
| "js_max PInf y = PInf"
| "js_max x PInf = PInf"
| "js_max NInf y = y"
| "js_max x NInf = x"
| "js_max (Fin a) (Fin b) = Fin (max a b)"

text \<open>\<^verbatim>\<open>Math.floor\<close> and \<^verbatim>\<open>Math.ceil\<close> leave the special values as they are.\<close>

fun js_floor :: "number \<Rightarrow> number" where
  "js_floor (Fin a) = Fin (of_int \<lfloor>a\<rfloor>)"
| "js_floor x = x"

fun js_ceil :: "number \<Rightarrow> number" where
  "js_ceil (Fin a) = Fin (of_int \<lceil>a\<rceil>)"
| "js_ceil x = x"

text \<open>\<^verbatim>\<open>Math.log\<close>: NaN below zero, \<open>-Infinity\<close> at zero.\<close>

fun js_log :: "number \<Rightarrow> number" where
  "js_log (Fin a) = (if a < 0 then NaN else if a = 0 then NInf else Fin (ln a))"
| "js_log PInf = PInf"
| "js_log NInf = NaN"
| "js_log NaN = NaN"

section \<open>The data the calculations read\<close>

text \<open>
  The types \<^verbatim>\<open>Server\<close>, \<^verbatim>\<open>Player\<close>, \<^verbatim>\<open>Target\<close>, \<^verbatim>\<open>Metrics\<close> and \<^verbatim>\<open>Controller\<close> are declared
  outside the two source files; each record has the fields the code reads. A field
  whose name is used by two types carries the type's name as a prefix in one of them.
  Field names are constants, so a parameter that the source calls \<^verbatim>\<open>target\<close> or
  \<^verbatim>\<open>metrics\<close> is written \<open>tgt\<close> or \<open>mets\<close> below, and the host name that
  \<^verbatim>\<open>calculateDelays\<close> calls \<^verbatim>\<open>target\<close> is \<open>host\<close>.
\<close>

record Server =
  hostname :: string
  server_moneyAvailable :: number
  server_hackDifficulty :: number

record Multipliers =
  hacking_money :: number
  hacking_grow :: number

record Skills =
  hacking :: number

record Player =
  mults :: Multipliers
  skills :: Skills

record Target =
  server :: Server
  hackDifficulty :: number
  moneyMax :: number
  moneyAvailable :: number

record Metrics =
  target :: Target
  greed :: number
  taskDelay :: number

record Controller =
  metrics :: Metrics
  controller_target :: Target

text \<open>
  \<^verbatim>\<open>ns\<close> is the host environment. The functions of this file are synchronous, so
  every query sees one snapshot of the environment: a record of the answers.
  The second argument of \<^verbatim>\<open>fileExists\<close> is optional in the interface.
\<close>

record NS =
  fileExists :: "string \<Rightarrow> string option \<Rightarrow> bool"
  getPlayer :: Player
  formulas_hacking_hackPercent :: "Server \<Rightarrow> Player \<Rightarrow> number"
  formulas_hacking_growThreads :: "Server \<Rightarrow> Player \<Rightarrow> number \<Rightarrow> number"
  getServerRequiredHackingLevel :: "string \<Rightarrow> number"
  getServerSecurityLevel :: "string \<Rightarrow> number"
  getServerGrowth :: "string \<Rightarrow> number"
  getHackTime :: "string \<Rightarrow> number"
  getGrowTime :: "string \<Rightarrow> number"
  getWeakenTime :: "string \<Rightarrow> number"

section \<open>Delays\<close>

text \<open>
  The calculations are the functions of \<^verbatim>\<open>src/lib/thread-utils.ts\<close>, under their
  own names and with their own local constants.
\<close>

definition calculateDelays :: "NS \<Rightarrow> Controller \<Rightarrow> number list" where
  "calculateDelays ns controller =
     (let host = hostname (server (target (metrics controller)));
          hackTime = getHackTime ns host;
          growTime = getGrowTime ns host;
          weakenTime = getWeakenTime ns host;
          taskDelay = taskDelay (metrics controller);
          hackDelay = js_sub (js_sub weakenTime hackTime) taskDelay;
          weaken1Delay = Fin 0;
          growDelay = js_add (js_sub weakenTime growTime) taskDelay;
          weaken2Delay = js_mul taskDelay (Fin 2)
      in [hackDelay, weaken1Delay, growDelay, weaken2Delay])"

section \<open>Effect model\<close>

text \<open>
  Modelled from the spec: \<^verbatim>\<open>clamp\<close> is imported from \<^verbatim>\<open>/lib/misc\<close>, which is not among
  the source files. The specification uses \<open>clamp(x, 0, 1)\<close> as the restriction of
  \<open>x\<close> to the interval from 0 to 1. NaN stays NaN, as it does both with
  \<^verbatim>\<open>Math.min\<close>/\<^verbatim>\<open>Math.max\<close> and with comparisons.
\<close>

definition clamp :: "number \<Rightarrow> number \<Rightarrow> number \<Rightarrow> number" where
  "clamp x lo hi = js_min (js_max x lo) hi"

definition getHackEffect :: "NS \<Rightarrow> Target \<Rightarrow> number" where
  "getHackEffect ns tgt =
     (let hostname = hostname (server tgt);
          hackDifficulty = hackDifficulty tgt;
          difficultyMultiplier = js_div (js_sub (Fin 100) hackDifficulty) (Fin 100);
          hackStealMultiplier = hacking_money (mults (getPlayer ns));
          playerSkill = hacking (skills (getPlayer ns));
          requiredSkill = getServerRequiredHackingLevel ns hostname;
          skillMultiplier =
            js_div (js_sub playerSkill (js_sub requiredSkill (Fin 1))) playerSkill;
          balanceFactor = Fin 240;
          percentMoneyStolen =
            js_div (js_mul (js_mul difficultyMultiplier skillMultiplier) hackStealMultiplier)
              balanceFactor
      in clamp percentMoneyStolen (Fin 0) (Fin 1))"

definition getHackThreads :: "NS \<Rightarrow> Metrics \<Rightarrow> number" where
  "getHackThreads ns mets =
     (let hackPercent =
            (if fileExists ns ''Formulas.exe'' (Some ''home'')
             then (let player = getPlayer ns;
                       server = server (target mets)
                   in formulas_hacking_hackPercent ns server player)
             else getHackEffect ns (target mets));
          hackThreads = js_floor (js_div (greed mets) hackPercent)
      in hackThreads)"

definition growthAnalyzeDynamic :: "NS \<Rightarrow> Target \<Rightarrow> number \<Rightarrow> number" where
  "growthAnalyzeDynamic ns tgt multiplier =
     (let hostname = hostname (server tgt);
          hackDifficulty = getServerSecurityLevel ns hostname;
          baseGrowthRate = Fin 1.003;
          adjustedGrowthRate =
            js_add (Fin 1) (js_div (js_sub baseGrowthRate (Fin 1)) hackDifficulty);
          adjustedGrowthRate = js_min adjustedGrowthRate (Fin 1.0035);
          serverGrowthPercent = js_div (getServerGrowth ns hostname) (Fin 100);
          growMultiplier = hacking_grow (mults (getPlayer ns));
          threads =
            js_div (js_log multiplier)
              (js_mul (js_mul (js_log adjustedGrowthRate) growMultiplier) serverGrowthPercent)
      in threads)"

text \<open>
  \<^verbatim>\<open>createMockServer\<close> discards the server it asks the environment for and returns
  the target's own server object with two fields overwritten. (The caller's
  \<^verbatim>\<open>target.server\<close> is that same object; nothing below reads it afterwards.)
\<close>

definition createMockServer :: "NS \<Rightarrow> Target \<Rightarrow> Server" where
  "createMockServer ns tgt =
     (let mockServer = server tgt;
          money = moneyAvailable tgt;
          sec = hackDifficulty tgt
      in mockServer\<lparr>server_moneyAvailable := money, server_hackDifficulty := sec\<rparr>)"

definition getGrowThreads :: "NS \<Rightarrow> Target \<Rightarrow> number" where
  "getGrowThreads ns tgt =
     (let maxMoney = moneyMax tgt;
          money = moneyAvailable tgt;
          growThreads =
            (if fileExists ns ''Formulas.exe'' None
             then (let predictedServer = createMockServer ns tgt
                   in formulas_hacking_growThreads ns predictedServer (getPlayer ns) maxMoney)
             else (let multiplier = js_div maxMoney (js_max money (Fin 1))
                   in growthAnalyzeDynamic ns tgt multiplier))
      in js_ceil growThreads)"

section \<open>Thread counts\<close>

definition calculateThreads :: "NS \<Rightarrow> Metrics \<Rightarrow> number list" where
  "calculateThreads ns mets =
     (let hackThreads = getHackThreads ns mets;
          hackWeakenThreads = js_ceil (js_div hackThreads (Fin 25));
          growThreads =
            js_floor (growthAnalyzeDynamic ns (target mets) (js_add (Fin 1) (greed mets)));
          growWeakenThreads = js_ceil (js_div growThreads (Fin 12.5))
      in [hackThreads, hackWeakenThreads, growThreads, growWeakenThreads])"

section \<open>Batches\<close>

text \<open>
  Modelled from the spec: the type \<^verbatim>\<open>Task\<close> and the function \<^verbatim>\<open>createBatchTasks\<close> are
  imported from \<^verbatim>\<open>/hacking/task\<close>, which is not among the source files. The
  specification gives a task a kind, a phase, a thread count and a delay, and has
  the assembler invoke the thread calculation, then the delay calculation, and
  wrap the results into four tasks in the order Extract, Fortify for Extract,
  Replenish, Fortify for Replenish. It asks for thread counts of at least 1 at
  this boundary: a count that the raw computation rounds to 0 is raised to 1
  (\<^verbatim>\<open>Math.max(threads, 1)\<close>). \<open>calculateThreads\<close> itself applies no such bound.
\<close>

datatype kind = Extract | Fortify | Replenish

datatype phase = Primary | Secondary

record Task =
  kind :: kind
  phase :: phase
  threads :: number
  delay :: number

definition batchKinds :: "(kind \<times> phase) list" where
  "batchKinds = [(Extract, Primary), (Fortify, Primary), (Replenish, Primary), (Fortify, Secondary)]"

definition createBatchTasks :: "NS \<Rightarrow> Controller \<Rightarrow> Task list" where
  "createBatchTasks ns controller =
     map (\<lambda>((k, p), (t, d)). \<lparr>kind = k, phase = p, threads = js_max t (Fin 1), delay = d\<rparr>)
       (zip batchKinds
          (zip (calculateThreads ns (metrics controller)) (calculateDelays ns controller)))"

record Batch =
  batch_target :: Server
  hosts :: "Server list"
  tasks :: "Task list"

text \<open>
  \<^verbatim>\<open>getUsableHosts\<close> comes from \<^verbatim>\<open>/lib/searchServers\<close>; the batch passes its answer
  through, so it is a parameter here.
\<close>

definition createBatch :: "(NS \<Rightarrow> Server list) \<Rightarrow> NS \<Rightarrow> Controller \<Rightarrow> Batch" where
  "createBatch getUsableHosts ns controller =
     (let tasks = createBatchTasks ns controller
      in \<lparr>batch_target = server (controller_target controller),
          hosts = getUsableHosts ns,
          tasks = tasks\<rparr>)"

text \<open>The comparison \<^verbatim>\<open><=\<close> of the language: false as soon as NaN is involved.\<close>

fun js_le :: "number \<Rightarrow> number \<Rightarrow> bool" where
  "js_le NaN y = False"
| "js_le x NaN = False"
| "js_le NInf y = True"
| "js_le x PInf = True"
| "js_le (Fin a) (Fin b) = (a \<le> b)"
| "js_le x y = False"


section \<open>Example inputs\<close>

text \<open>
  A server at its minimum security with all its money, a player far above the
  required level, a greed of one half, and the durations 5, 10 and 20 with a
  spacing of 2. The file \<^verbatim>\<open>Formulas.exe\<close> is absent in \<open>demoNS\<close> and present in
  \<open>oracleNS\<close>, where the exact formulas answer 0.05 for the yield fraction and
  1809.5 for the grow threads.
\<close>

definition demoPlayer :: Player where
  "demoPlayer = \<lparr>mults = \<lparr>hacking_money = Fin 1, hacking_grow = Fin 1\<rparr>, skills = \<lparr>hacking = Fin 100\<rparr>\<rparr>"

definition demoNS :: NS where
  "demoNS = \<lparr>fileExists = (\<lambda>file host. False),
     getPlayer = demoPlayer,
     formulas_hacking_hackPercent = (\<lambda>server player. Fin 0.05),
     formulas_hacking_growThreads = (\<lambda>server player money. Fin 1809.5),
     getServerRequiredHackingLevel = (\<lambda>host. Fin 1),
     getServerSecurityLevel = (\<lambda>host. Fin 1),
     getServerGrowth = (\<lambda>host. Fin 100),
     getHackTime = (\<lambda>host. Fin 5),
     getGrowTime = (\<lambda>host. Fin 10),
     getWeakenTime = (\<lambda>host. Fin 20)\<rparr>"

definition demoServer :: Server where
  "demoServer = \<lparr>hostname = ''n00dles'', server_moneyAvailable = Fin 1000000, server_hackDifficulty = Fin 1\<rparr>"

definition demoTarget :: Target where
  "demoTarget = \<lparr>server = demoServer, hackDifficulty = Fin 1, moneyMax = Fin 1000000, moneyAvailable = Fin 1000000\<rparr>"

definition demoMetrics :: Metrics where
  "demoMetrics = \<lparr>target = demoTarget, greed = Fin 0.5, taskDelay = Fin 2\<rparr>"

definition demoController :: Controller where
  "demoController = \<lparr>metrics = demoMetrics, controller_target = demoTarget\<rparr>"

definition oracleNS :: NS where
  "oracleNS = demoNS\<lparr>fileExists := (\<lambda>file host. True)\<rparr>"

text \<open>
  Variations of the example. \<open>lowGreedMetrics\<close> asks for 0.3 percent of the money,
  which is what one grow thread restores at security 1 and growth 100.
  \<open>ratioNS a b\<close> is an environment with the exact formulas in which that greed
  takes \<open>a\<close> hack threads and \<open>b\<close> grow threads. In \<open>underNS\<close> the player's skill 1
  is below the required level 10. \<open>halfNS\<close> doubles the growth, \<open>grownTarget\<close> has
  0.3 percent of its money missing, and \<open>drainedTarget\<close> has no money left.
  \<open>noHosts\<close> finds no usable host.
\<close>

definition noHosts :: "NS \<Rightarrow> Server list" where
  "noHosts ns = []"

definition lowGreedMetrics :: Metrics where
  "lowGreedMetrics = demoMetrics\<lparr>greed := Fin 0.003\<rparr>"

definition lowGreedController :: Controller where
  "lowGreedController = demoController\<lparr>metrics := lowGreedMetrics\<rparr>"

definition ratioNS :: "real \<Rightarrow> real \<Rightarrow> NS" where
  "ratioNS a b = oracleNS\<lparr>formulas_hacking_hackPercent := (\<lambda>server player. Fin (0.003 / a)),
                           getServerGrowth := (\<lambda>host. Fin (100 / b))\<rparr>"


definition halfNS :: NS where
  "halfNS = demoNS\<lparr>getServerGrowth := (\<lambda>host. Fin 200)\<rparr>"

definition grownTarget :: Target where
  "grownTarget = demoTarget\<lparr>moneyMax := Fin 1003000\<rparr>"

definition grownMetrics :: Metrics where
  "grownMetrics = \<lparr>target = grownTarget, greed = Fin 0.003, taskDelay = Fin 2\<rparr>"

definition drainedTarget :: Target where
  "drainedTarget = demoTarget\<lparr>moneyAvailable := Fin 0\<rparr>"



definition softNS :: NS where
  "softNS = demoNS\<lparr>getServerSecurityLevel := (\<lambda>host. Fin 0.5)\<rparr>"

section \<open>Properties of the delays\<close>

lemmas demo_defs = demoPlayer_def demoNS_def demoServer_def demoTarget_def demoMetrics_def demoController_def

text \<open>
  C2. For every input \<open>calculateDelays\<close> returns the four offsets
  \<open>weakenTime - hackTime - taskDelay\<close>, \<open>0\<close>, \<open>weakenTime - growTime + taskDelay\<close> and
  \<open>taskDelay * 2\<close>, in this order: in the arithmetic of the language for any
  numbers at all, and as real numbers when the durations and the spacing are finite.
\<close>

theorem calculateDelays_offsets:
  "calculateDelays ns c =
     [js_sub (js_sub (getWeakenTime ns (hostname (server (target (metrics c)))))
                     (getHackTime ns (hostname (server (target (metrics c))))))
             (taskDelay (metrics c)),
      Fin 0,
      js_add (js_sub (getWeakenTime ns (hostname (server (target (metrics c)))))
                     (getGrowTime ns (hostname (server (target (metrics c))))))
             (taskDelay (metrics c)),
      js_mul (taskDelay (metrics c)) (Fin 2)]
   \<and> (getHackTime ns (hostname (server (target (metrics c)))) = Fin h \<and>
      getGrowTime ns (hostname (server (target (metrics c)))) = Fin g \<and>
      getWeakenTime ns (hostname (server (target (metrics c)))) = Fin w \<and>
      taskDelay (metrics c) = Fin s \<longrightarrow>
      calculateDelays ns c = [Fin (w - h - s), Fin 0, Fin (w - g + s), Fin (s * 2)])"
  by (simp add: calculateDelays_def Let_def js_sub_def)

theorem calculateDelays_offsets_witness:
  "calculateDelays demoNS demoController = [Fin 13, Fin 0, Fin 12, Fin 4]"
proof -
  have "getHackTime demoNS (hostname (server (target (metrics demoController)))) = Fin 5 \<and>
        getGrowTime demoNS (hostname (server (target (metrics demoController)))) = Fin 10 \<and>
        getWeakenTime demoNS (hostname (server (target (metrics demoController)))) = Fin 20 \<and>
        taskDelay (metrics demoController) = Fin 2"
    by (simp add: demo_defs)
  with calculateDelays_offsets [of demoNS demoController 5 10 20 2]
  have "calculateDelays demoNS demoController = [Fin (20 - 5 - 2), Fin 0, Fin (20 - 10 + 2), Fin (2 * 2)]"
    by blast
  then show ?thesis by simp
qed




text \<open>The example of the specification: the operations land at 18, 20, 22 and 24.\<close>

lemma landing_example:
  "map2 js_add (calculateDelays demoNS demoController) [Fin 5, Fin 20, Fin 10, Fin 20] =
     [Fin 18, Fin 20, Fin 22, Fin 24]"
  by (simp add: calculateDelays_def Let_def js_sub_def demo_defs)

text \<open>
  C10 as stated fails: the first element of the vector is the hack delay, 13 in the
  example.
\<close>

theorem first_delay_counterexample:
  "calculateDelays demoNS demoController ! 0 = Fin 13 \<and> calculateDelays demoNS demoController ! 0 \<noteq> Fin 0"
  by (simp add: calculateDelays_def Let_def js_sub_def demo_defs)

text \<open>
  C10, amended. The element of the delay vector that is always 0 is the second
  one, the delay of the first weaken; the first element is the hack delay
  \<open>weakenTime - hackTime - taskDelay\<close>.
\<close>

theorem second_delay_zero:
  "calculateDelays ns c ! 1 = Fin 0 \<and>
   calculateDelays ns c ! 0 =
     js_sub (js_sub (getWeakenTime ns (hostname (server (target (metrics c)))))
                    (getHackTime ns (hostname (server (target (metrics c))))))
            (taskDelay (metrics c))"
  by (simp add: calculateDelays_def Let_def)


section \<open>Properties of the effect model\<close>

text \<open>
  C4. The analytic yield fraction is
  \<open>clamp(((100 - hackDifficulty) / 100) * ((skill - (required - 1)) / skill) * mult / 240, 0, 1)\<close>:
  the balance factor is 240 and the only clamp is the last one, so a negative skill
  multiplier reaches it unchanged. For finite inputs and a skill other than 0 this
  is the real number \<open>min 1 (max 0 \<dots>)\<close>.
\<close>

theorem getHackEffect_formula:
  "getHackEffect ns tgt =
     clamp (js_div (js_mul (js_mul (js_div (js_sub (Fin 100) (hackDifficulty tgt)) (Fin 100))
                                   (js_div (js_sub (hacking (skills (getPlayer ns)))
                                                   (js_sub (getServerRequiredHackingLevel ns (hostname (server tgt))) (Fin 1)))
                                           (hacking (skills (getPlayer ns)))))
                           (hacking_money (mults (getPlayer ns))))
                   (Fin 240))
           (Fin 0) (Fin 1)
   \<and> (hackDifficulty tgt = Fin d \<and>
      hacking (skills (getPlayer ns)) = Fin p \<and> p \<noteq> 0 \<and>
      getServerRequiredHackingLevel ns (hostname (server tgt)) = Fin r \<and>
      hacking_money (mults (getPlayer ns)) = Fin e \<longrightarrow>
      getHackEffect ns tgt =
        Fin (min 1 (max 0 (((100 - d) / 100) * ((p - (r - 1)) / p) * e / 240))))"
  by (auto simp add: getHackEffect_def Let_def js_sub_def clamp_def min.commute max.commute
        algebra_simps)

theorem getHackEffect_formula_witness:
  "getHackEffect demoNS demoTarget = Fin (33 / 8000)"
proof -
  have "hackDifficulty demoTarget = Fin 1 \<and>
        hacking (skills (getPlayer demoNS)) = Fin 100 \<and> (100::real) \<noteq> 0 \<and>
        getServerRequiredHackingLevel demoNS (hostname (server demoTarget)) = Fin 1 \<and>
        hacking_money (mults (getPlayer demoNS)) = Fin 1"
    by (simp add: demo_defs)
  with getHackEffect_formula [of demoNS demoTarget 1 100 1 1]
  have "getHackEffect demoNS demoTarget =
          Fin (min 1 (max 0 (((100 - 1) / 100) * ((100 - (1 - 1)) / 100) * 1 / 240)))"
    by blast
  then show ?thesis by simp
qed





section \<open>Properties of the growth estimate\<close>

lemma adjusted_rate_Fin:
  fixes d :: real
  assumes "0 < d"
  shows "js_min (js_add (Fin 1) (js_div (js_sub (Fin 1.003) (Fin 1)) (Fin d))) (Fin 1.0035) =
           Fin (min (1 + 0.003 / d) 1.0035)"
    and "1 < min (1 + 0.003 / d) (1.0035 :: real)"
  using assms by (simp_all add: js_sub_def)

lemma threads_quotient_Fin:
  fixes a e r m :: real
  assumes "1 < a" and "e \<noteq> 0" and "r \<noteq> 0" and "0 < m"
  shows "js_div (js_log (Fin m)) (js_mul (js_mul (js_log (Fin a)) (Fin e)) (js_div (Fin r) (Fin 100))) =
           Fin (ln m / (ln a * e * (r / 100)))"
proof -
  have "0 < ln a" using assms(1) by simp
  then show ?thesis using assms by simp
qed

lemma growthAnalyzeDynamic_Fin:
  assumes "getServerSecurityLevel ns (hostname (server tgt)) = Fin d" and "0 < d"
    and "hacking_grow (mults (getPlayer ns)) = Fin e" and "e \<noteq> 0"
    and "getServerGrowth ns (hostname (server tgt)) = Fin r" and "r \<noteq> 0"
    and "0 < m"
  shows "growthAnalyzeDynamic ns tgt (Fin m) =
           Fin (ln m / (ln (min (1 + 0.003 / d) 1.0035) * e * (r / 100)))"
proof -
  have "growthAnalyzeDynamic ns tgt (Fin m) =
          js_div (js_log (Fin m))
            (js_mul (js_mul (js_log (js_min (js_add (Fin 1) (js_div (js_sub (Fin 1.003) (Fin 1)) (Fin d)))
                                            (Fin 1.0035)))
                            (Fin e))
                    (js_div (Fin r) (Fin 100)))"
    by (simp only: growthAnalyzeDynamic_def Let_def assms)
  also have "\<dots> = js_div (js_log (Fin m))
            (js_mul (js_mul (js_log (Fin (min (1 + 0.003 / d) 1.0035))) (Fin e))
                    (js_div (Fin r) (Fin 100)))"
    by (simp only: adjusted_rate_Fin(1) [OF assms(2)])
  also have "\<dots> = Fin (ln m / (ln (min (1 + 0.003 / d) 1.0035) * e * (r / 100)))"
    using assms by (intro threads_quotient_Fin adjusted_rate_Fin(2))
  finally show ?thesis .
qed

text \<open>At security 1 and growth 100 one grow thread multiplies the money by 1.003.\<close>

lemma growthAnalyzeDynamic_unit:
  assumes "getServerSecurityLevel ns (hostname (server tgt)) = Fin 1"
    and "hacking_grow (mults (getPlayer ns)) = Fin 1"
    and "getServerGrowth ns (hostname (server tgt)) = Fin r" and "r \<noteq> 0"
  shows "growthAnalyzeDynamic ns tgt (Fin 1.003) = Fin (100 / r)"
proof -
  have "0 < ln (1.003 :: real)" by simp
  then have "ln (1.003 :: real) / (ln 1.003 * 1 * (r / 100)) = 100 / r"
    using assms(4) by (simp add: field_simps)
  moreover have "growthAnalyzeDynamic ns tgt (Fin 1.003) =
      Fin (ln 1.003 / (ln (min (1 + 0.003 / 1) 1.0035) * 1 * (r / 100)))"
    using assms by (intro growthAnalyzeDynamic_Fin) simp_all
  ultimately show ?thesis by simp
qed

text \<open>At growth 200 it takes half a thread.\<close>

lemma half_thread:
  assumes "getServerSecurityLevel ns (hostname (server tgt)) = Fin 1"
    and "hacking_grow (mults (getPlayer ns)) = Fin 1"
    and "getServerGrowth ns (hostname (server tgt)) = Fin 200"
  shows "growthAnalyzeDynamic ns tgt (Fin 1.003) = Fin 0.5"
  using growthAnalyzeDynamic_unit [OF assms] by simp

text \<open>
  C6. For every multiplier the analytic estimate of the grow threads is
  \<open>log m / (log adjusted * hacking_grow * (growth / 100))\<close> with
  \<open>adjusted = min (1 + (1.003 - 1) / security) 1.0035\<close>, each operation being the
  language's own. The base increment \<open>1.003 - 1\<close> is 0.003 over the reals, and
  there the estimate is the real number
  \<open>ln m / (ln (min (1 + 0.003 / security) 1.0035) * hacking_grow * (growth / 100))\<close>
  when \<open>m > 0\<close>, the security level is positive and the two other factors are
  not 0.
\<close>

theorem growthAnalyzeDynamic_formula:
  "growthAnalyzeDynamic ns tgt multiplier =
     js_div (js_log multiplier)
       (js_mul (js_mul (js_log (js_min (js_add (Fin 1)
                                          (js_div (js_sub (Fin 1.003) (Fin 1))
                                                  (getServerSecurityLevel ns (hostname (server tgt)))))
                                       (Fin 1.0035)))
                       (hacking_grow (mults (getPlayer ns))))
               (js_div (getServerGrowth ns (hostname (server tgt))) (Fin 100)))
   \<and> (getServerSecurityLevel ns (hostname (server tgt)) = Fin d \<and> 0 < d \<and>
      hacking_grow (mults (getPlayer ns)) = Fin e \<and> e \<noteq> 0 \<and>
      getServerGrowth ns (hostname (server tgt)) = Fin r \<and> r \<noteq> 0 \<and>
      0 < m \<longrightarrow>
      growthAnalyzeDynamic ns tgt (Fin m) =
        Fin (ln m / (ln (min (1 + 0.003 / d) 1.0035) * e * (r / 100))))"
proof (intro conjI impI)
  show "growthAnalyzeDynamic ns tgt multiplier =
     js_div (js_log multiplier)
       (js_mul (js_mul (js_log (js_min (js_add (Fin 1)
                                          (js_div (js_sub (Fin 1.003) (Fin 1))
                                                  (getServerSecurityLevel ns (hostname (server tgt)))))
                                       (Fin 1.0035)))
                       (hacking_grow (mults (getPlayer ns))))
               (js_div (getServerGrowth ns (hostname (server tgt))) (Fin 100)))"
    by (simp only: growthAnalyzeDynamic_def Let_def)
next
  assume "getServerSecurityLevel ns (hostname (server tgt)) = Fin d \<and> 0 < d \<and>
      hacking_grow (mults (getPlayer ns)) = Fin e \<and> e \<noteq> 0 \<and>
      getServerGrowth ns (hostname (server tgt)) = Fin r \<and> r \<noteq> 0 \<and>
      0 < m"
  then show "growthAnalyzeDynamic ns tgt (Fin m) =
        Fin (ln m / (ln (min (1 + 0.003 / d) 1.0035) * e * (r / 100)))"
    by (intro growthAnalyzeDynamic_Fin) simp_all
qed

text \<open>
  Three runs that depend on each constant. At security 1 one thread multiplies by
  1.003, the base rate. At security one half the rate would be 1.006 and the cap
  makes it 1.0035. At growth 200 the same multiplier takes half a thread.
\<close>

theorem growthAnalyzeDynamic_formula_witness:
  "growthAnalyzeDynamic demoNS demoTarget (Fin 1.003) = Fin 1 \<and>
   growthAnalyzeDynamic softNS demoTarget (Fin 1.0035) = Fin 1 \<and>
   growthAnalyzeDynamic softNS demoTarget (Fin 1.006) \<noteq> Fin 1 \<and>
   growthAnalyzeDynamic halfNS demoTarget (Fin 1.003) = Fin 0.5"
proof -
  have base: "getServerSecurityLevel demoNS (hostname (server demoTarget)) = Fin 1 \<and> (0::real) < 1 \<and>
      hacking_grow (mults (getPlayer demoNS)) = Fin 1 \<and> (1::real) \<noteq> 0 \<and>
      getServerGrowth demoNS (hostname (server demoTarget)) = Fin 100 \<and> (100::real) \<noteq> 0 \<and>
      (0::real) < 1.003"
    by (simp add: demo_defs)
  have soft: "getServerSecurityLevel softNS (hostname (server demoTarget)) = Fin 0.5 \<and> (0::real) < 0.5 \<and>
      hacking_grow (mults (getPlayer softNS)) = Fin 1 \<and> (1::real) \<noteq> 0 \<and>
      getServerGrowth softNS (hostname (server demoTarget)) = Fin 100 \<and> (100::real) \<noteq> 0 \<and>
      (0::real) < 1.0035 \<and> (0::real) < 1.006"
    by (simp add: softNS_def demo_defs)
  have half: "getServerSecurityLevel halfNS (hostname (server demoTarget)) = Fin 1 \<and> (0::real) < 1 \<and>
      hacking_grow (mults (getPlayer halfNS)) = Fin 1 \<and> (1::real) \<noteq> 0 \<and>
      getServerGrowth halfNS (hostname (server demoTarget)) = Fin 200 \<and> (200::real) \<noteq> 0 \<and>
      (0::real) < 1.003"
    by (simp add: halfNS_def demo_defs)
  have p: "0 < ln (1.003 :: real)" "0 < ln (1.0035 :: real)" by simp_all
  have q: "ln (1.0035 :: real) < ln 1.006" by simp
  from base growthAnalyzeDynamic_formula [of demoNS demoTarget _ 1 1 100 "1.003"]
  have "growthAnalyzeDynamic demoNS demoTarget (Fin 1.003) =
          Fin (ln 1.003 / (ln (min (1 + 0.003 / 1) 1.0035) * 1 * (100 / 100)))"
    by blast
  then have r1: "growthAnalyzeDynamic demoNS demoTarget (Fin 1.003) = Fin 1"
    using p by simp
  from soft growthAnalyzeDynamic_formula [of softNS demoTarget _ "0.5" 1 100 "1.0035"]
  have "growthAnalyzeDynamic softNS demoTarget (Fin 1.0035) =
          Fin (ln 1.0035 / (ln (min (1 + 0.003 / 0.5) 1.0035) * 1 * (100 / 100)))"
    by blast
  then have r2: "growthAnalyzeDynamic softNS demoTarget (Fin 1.0035) = Fin 1"
    using p by simp
  from soft growthAnalyzeDynamic_formula [of softNS demoTarget _ "0.5" 1 100 "1.006"]
  have "growthAnalyzeDynamic softNS demoTarget (Fin 1.006) =
          Fin (ln 1.006 / (ln (min (1 + 0.003 / 0.5) 1.0035) * 1 * (100 / 100)))"
    by blast
  then have "growthAnalyzeDynamic softNS demoTarget (Fin 1.006) = Fin (ln 1.006 / ln 1.0035)"
    by simp
  moreover have "ln (1.006 :: real) / ln 1.0035 \<noteq> 1"
    using p q by simp
  ultimately have r3: "growthAnalyzeDynamic softNS demoTarget (Fin 1.006) \<noteq> Fin 1"
    by simp
  from half growthAnalyzeDynamic_formula [of halfNS demoTarget _ 1 1 200 "1.003"]
  have "growthAnalyzeDynamic halfNS demoTarget (Fin 1.003) =
          Fin (ln 1.003 / (ln (min (1 + 0.003 / 1) 1.0035) * 1 * (200 / 100)))"
    by blast
  then have r4: "growthAnalyzeDynamic halfNS demoTarget (Fin 1.003) = Fin 0.5"
    using p by simp
  from r1 r2 r3 r4 show ?thesis by simp
qed

section \<open>Properties of the thread counts\<close>

lemma calculateThreads_Fin:
  assumes "getHackThreads ns mets = Fin t"
    and "js_floor (growthAnalyzeDynamic ns (target mets) (js_add (Fin 1) (greed mets))) = Fin u"
  shows "calculateThreads ns mets =
           [Fin t, Fin (of_int \<lceil>t / 25\<rceil>), Fin u, Fin (of_int \<lceil>u / 12.5\<rceil>)]"
  using assms by (simp add: calculateThreads_def Let_def)

lemma ceiling_div_25:
  "\<lceil>real t / 25\<rceil> = int ((t + 24) div 25)"
proof -
  have "\<lceil>real t / 25\<rceil> = \<lceil>of_int (int t) / (of_int 25 :: real)\<rceil>" by simp
  also have "\<dots> = - (- int t div 25)" by (rule ceiling_divide_eq_div)
  also have "\<dots> = int ((t + 24) div 25)" by (simp add: zdiv_int)
  finally show ?thesis .
qed

text \<open>
  C7. When the hack thread count is a natural number \<open>t\<close> and the grow thread count
  a natural number \<open>u\<close>, the weaken count that offsets the hacks is \<open>\<lceil>t / 25\<rceil>\<close> and
  the one that offsets the grows is \<open>\<lceil>u / 12.5\<rceil>\<close>; as integer divisions these are
  \<open>(t + 24) div 25\<close> and \<open>(2 * u + 24) div 25\<close>.
\<close>

theorem weaken_thread_ratios:
  assumes "getHackThreads ns mets = Fin (real t)"
    and "js_floor (growthAnalyzeDynamic ns (target mets) (js_add (Fin 1) (greed mets))) = Fin (real u)"
  shows "calculateThreads ns mets =
           [Fin (real t), Fin (of_int \<lceil>real t / 25\<rceil>), Fin (real u), Fin (of_int \<lceil>real u / 12.5\<rceil>)] \<and>
         \<lceil>real t / 25\<rceil> = int ((t + 24) div 25) \<and>
         \<lceil>real u / 12.5\<rceil> = int ((2 * u + 24) div 25)"
proof -
  have "real u / 12.5 = real (2 * u) / 25" by simp
  then have "\<lceil>real u / 12.5\<rceil> = int ((2 * u + 24) div 25)"
    by (simp only: ceiling_div_25)
  then show ?thesis
    using calculateThreads_Fin [OF assms] ceiling_div_25 [of t] by simp
qed


text \<open>
  Runs of the program at the boundaries: 0, 25 and 26 hack threads, 0, 12 and 13
  grow threads.
\<close>

lemma lowGreed_multiplier: "js_add (Fin 1) (greed lowGreedMetrics) = Fin 1.003"
  by (simp add: lowGreedMetrics_def demo_defs)

lemma ratioNS_hackThreads:
  "0 < a \<Longrightarrow> getHackThreads (ratioNS a b) lowGreedMetrics = Fin (of_int \<lfloor>a\<rfloor>)"
  by (simp add: getHackThreads_def Let_def lowGreedMetrics_def ratioNS_def oracleNS_def demo_defs)

lemma ratioNS_growThreads:
  assumes "0 < b"
  shows "js_floor (growthAnalyzeDynamic (ratioNS a b) (target lowGreedMetrics)
           (js_add (Fin 1) (greed lowGreedMetrics))) = Fin (of_int \<lfloor>b\<rfloor>)"
proof -
  have "growthAnalyzeDynamic (ratioNS a b) (target lowGreedMetrics) (Fin 1.003) = Fin (100 / (100 / b))"
    using assms by (intro growthAnalyzeDynamic_unit) (simp_all add: lowGreedMetrics_def ratioNS_def oracleNS_def demo_defs)
  then show ?thesis by (simp only: lowGreed_multiplier) simp
qed

lemma halfNS_hackThreads: "getHackThreads halfNS lowGreedMetrics = Fin 0"
  by (simp add: getHackThreads_def getHackEffect_def clamp_def js_sub_def Let_def
        halfNS_def lowGreedMetrics_def demo_defs)

lemma halfNS_growThreads:
  "js_floor (growthAnalyzeDynamic halfNS (target lowGreedMetrics)
           (js_add (Fin 1) (greed lowGreedMetrics))) = Fin 0"
proof -
  have "growthAnalyzeDynamic halfNS (target lowGreedMetrics) (Fin 1.003) = Fin 0.5"
    by (rule half_thread) (simp_all add: halfNS_def lowGreedMetrics_def demo_defs)
  then show ?thesis by (simp only: lowGreed_multiplier) simp
qed

theorem weaken_thread_ratios_witness:
  "calculateThreads halfNS lowGreedMetrics = [Fin 0, Fin 0, Fin 0, Fin 0] \<and>
   calculateThreads (ratioNS 25 12) lowGreedMetrics = [Fin 25, Fin 1, Fin 12, Fin 1] \<and>
   calculateThreads (ratioNS 26 13) lowGreedMetrics = [Fin 26, Fin 2, Fin 13, Fin 2]"
proof -
  have "getHackThreads halfNS lowGreedMetrics = Fin (real 0)"
    using halfNS_hackThreads by simp
  moreover have "js_floor (growthAnalyzeDynamic halfNS (target lowGreedMetrics)
           (js_add (Fin 1) (greed lowGreedMetrics))) = Fin (real 0)"
    using halfNS_growThreads by simp
  ultimately have "calculateThreads halfNS lowGreedMetrics =
      [Fin (real 0), Fin (of_int \<lceil>real 0 / 25\<rceil>), Fin (real 0), Fin (of_int \<lceil>real 0 / 12.5\<rceil>)]"
    using weaken_thread_ratios [of halfNS lowGreedMetrics 0 0] by blast
  then have zero: "calculateThreads halfNS lowGreedMetrics = [Fin 0, Fin 0, Fin 0, Fin 0]"
    by simp
  have "getHackThreads (ratioNS 25 12) lowGreedMetrics = Fin (real 25)"
    using ratioNS_hackThreads [of 25 12] by simp
  moreover have "js_floor (growthAnalyzeDynamic (ratioNS 25 12) (target lowGreedMetrics)
           (js_add (Fin 1) (greed lowGreedMetrics))) = Fin (real 12)"
    using ratioNS_growThreads [of 12 25] by simp
  ultimately have "calculateThreads (ratioNS 25 12) lowGreedMetrics =
      [Fin (real 25), Fin (of_int \<lceil>real 25 / 25\<rceil>), Fin (real 12), Fin (of_int \<lceil>real 12 / 12.5\<rceil>)]"
    using weaken_thread_ratios [of "ratioNS 25 12" lowGreedMetrics 25 12] by blast
  then have first: "calculateThreads (ratioNS 25 12) lowGreedMetrics = [Fin 25, Fin 1, Fin 12, Fin 1]"
    by simp
  have "getHackThreads (ratioNS 26 13) lowGreedMetrics = Fin (real 26)"
    using ratioNS_hackThreads [of 26 13] by simp
  moreover have "js_floor (growthAnalyzeDynamic (ratioNS 26 13) (target lowGreedMetrics)
           (js_add (Fin 1) (greed lowGreedMetrics))) = Fin (real 13)"
    using ratioNS_growThreads [of 13 26] by simp
  ultimately have "calculateThreads (ratioNS 26 13) lowGreedMetrics =
      [Fin (real 26), Fin (of_int \<lceil>real 26 / 25\<rceil>), Fin (real 13), Fin (of_int \<lceil>real 13 / 12.5\<rceil>)]"
    using weaken_thread_ratios [of "ratioNS 26 13" lowGreedMetrics 26 13] by blast
  then have "calculateThreads (ratioNS 26 13) lowGreedMetrics = [Fin 26, Fin 2, Fin 13, Fin 2]"
    by simp
  with zero first show ?thesis by simp
qed

text \<open>With the low greed the example needs no hack thread and one grow thread.\<close>

lemma lowGreed_hackThreads: "getHackThreads demoNS lowGreedMetrics = Fin 0"
  by (simp add: getHackThreads_def getHackEffect_def clamp_def js_sub_def Let_def lowGreedMetrics_def demo_defs)

lemma lowGreed_growThreads:
  "js_floor (growthAnalyzeDynamic demoNS (target lowGreedMetrics)
           (js_add (Fin 1) (greed lowGreedMetrics))) = Fin 1"
proof -
  have "growthAnalyzeDynamic demoNS (target lowGreedMetrics) (Fin 1.003) = Fin (100 / 100)"
    by (intro growthAnalyzeDynamic_unit) (simp_all add: lowGreedMetrics_def demo_defs)
  then show ?thesis by (simp only: lowGreed_multiplier) simp
qed

lemma lowGreed_threads: "calculateThreads demoNS lowGreedMetrics = [Fin 0, Fin 0, Fin 1, Fin 1]"
  using calculateThreads_Fin [OF lowGreed_hackThreads lowGreed_growThreads] by simp

text \<open>
  The scenario of the specification: a yield fraction of 0.05 and a greed of one
  half take 10 hack threads and 1 weaken thread.
\<close>

lemma scenario_threads:
  "take 2 (calculateThreads oracleNS demoMetrics) = [Fin 10, Fin 1]"
  by (simp add: calculateThreads_def getHackThreads_def Let_def oracleNS_def demo_defs
        ceiling_unique)

section \<open>Properties of the batch\<close>

lemma createBatch_threads:
  "map threads (tasks (createBatch getUsableHosts ns c)) =
     map (\<lambda>t. js_max t (Fin 1)) (calculateThreads ns (metrics c))"
  by (simp add: createBatch_def createBatchTasks_def batchKinds_def calculateThreads_def
        calculateDelays_def Let_def)

lemma js_max_one: "x \<noteq> NaN \<Longrightarrow> js_le (Fin 1) (js_max x (Fin 1))"
  by (cases x) simp_all

text \<open>
  C8. The batch holds four tasks, and the thread count of each is the raw count
  of \<open>calculateThreads\<close> at its position raised to at least 1. So whenever the raw
  counts are numbers (none is NaN), every task has a thread count of at least 1,
  also where the raw computation gives 0.
\<close>

theorem batch_threads_positive:
  "map threads (tasks (createBatch getUsableHosts ns c)) =
     map (\<lambda>t. js_max t (Fin 1)) (calculateThreads ns (metrics c)) \<and>
   length (tasks (createBatch getUsableHosts ns c)) = 4 \<and>
   (NaN \<notin> set (calculateThreads ns (metrics c)) \<longrightarrow>
    (\<forall>task \<in> set (tasks (createBatch getUsableHosts ns c)). js_le (Fin 1) (threads task)))"
proof (intro conjI impI)
  show raw: "map threads (tasks (createBatch getUsableHosts ns c)) =
     map (\<lambda>t. js_max t (Fin 1)) (calculateThreads ns (metrics c))"
    by (rule createBatch_threads)
  have "length (calculateThreads ns (metrics c)) = 4"
    by (simp add: calculateThreads_def Let_def)
  then show "length (tasks (createBatch getUsableHosts ns c)) = 4"
    using raw length_map [of threads "tasks (createBatch getUsableHosts ns c)"] by simp
next
  assume "NaN \<notin> set (calculateThreads ns (metrics c))"
  then have "\<forall>x \<in> set (map (\<lambda>t. js_max t (Fin 1)) (calculateThreads ns (metrics c))).
      js_le (Fin 1) x"
    by (auto intro: js_max_one)
  then have "\<forall>x \<in> set (map threads (tasks (createBatch getUsableHosts ns c))). js_le (Fin 1) x"
    by (simp only: createBatch_threads)
  then show "\<forall>task \<in> set (tasks (createBatch getUsableHosts ns c)). js_le (Fin 1) (threads task)"
    by simp
qed

text \<open>
  With the low greed the raw vector holds zeros and the tasks have one thread each.
\<close>

theorem batch_threads_positive_witness:
  "calculateThreads demoNS (metrics lowGreedController) ! 0 = Fin 0 \<and>
   map threads (tasks (createBatch noHosts demoNS lowGreedController)) =
     [Fin 1, Fin 1, Fin 1, Fin 1] \<and>
   js_le (Fin 1) (threads (tasks (createBatch noHosts demoNS lowGreedController) ! 0)) \<and>
   js_le (Fin 1) (threads (tasks (createBatch noHosts demoNS lowGreedController) ! 1)) \<and>
   js_le (Fin 1) (threads (tasks (createBatch noHosts demoNS lowGreedController) ! 2)) \<and>
   js_le (Fin 1) (threads (tasks (createBatch noHosts demoNS lowGreedController) ! 3))"
proof -
  let ?ts = "tasks (createBatch noHosts demoNS lowGreedController)"
  have m: "metrics lowGreedController = lowGreedMetrics" by (simp add: lowGreedController_def demo_defs)
  have r: "calculateThreads demoNS (metrics lowGreedController) = [Fin 0, Fin 0, Fin 1, Fin 1]"
    by (simp only: m lowGreed_threads)
  then have n: "NaN \<notin> set (calculateThreads demoNS (metrics lowGreedController))"
    by simp
  have raw: "map threads ?ts =
      map (\<lambda>t. js_max t (Fin 1)) (calculateThreads demoNS (metrics lowGreedController))"
    and len: "length ?ts = 4"
    and all: "\<forall>task \<in> set ?ts. js_le (Fin 1) (threads task)"
    using n batch_threads_positive [of noHosts demoNS lowGreedController] by blast+
  have l: "map threads ?ts = [Fin 1, Fin 1, Fin 1, Fin 1]"
    using raw by (simp add: r)
  from len have "?ts ! 0 \<in> set ?ts" "?ts ! 1 \<in> set ?ts" "?ts ! 2 \<in> set ?ts" "?ts ! 3 \<in> set ?ts"
    by simp_all
  with all l r show ?thesis by simp
qed

section \<open>A yield fraction of zero\<close>

lemma getHackEffect_range:
  assumes "getHackEffect ns tgt = Fin f"
  shows "0 \<le> f \<and> f \<le> 1"
proof -
  have "clamp x (Fin 0) (Fin 1) = Fin f \<Longrightarrow> 0 \<le> f \<and> f \<le> 1" for x
    by (cases x) (auto simp add: clamp_def)
  then show ?thesis using assms by (simp add: getHackEffect_def Let_def)
qed




section \<open>Grow threads\<close>

lemma js_div_one: "js_div x (Fin 1) = x"
  by (cases x) (simp_all add: inf_of_def)

text \<open>
  C5, amended. Without \<^verbatim>\<open>Formulas.exe\<close>, \<open>getGrowThreads\<close> is the ceiling of the
  analytic estimate at the multiplier \<open>moneyMax / max(moneyAvailable, 1)\<close>, which is
  \<open>moneyMax\<close> itself when no money is left; with it, the ceiling of what the exact
  formulas answer for the target's server. The grow count of the batch vector is
  something else: the floor of the analytic estimate at the multiplier
  \<open>1 + greed\<close>. It is rounded down and does not read \<open>moneyMax\<close> or \<open>moneyAvailable\<close>.
\<close>

theorem grow_thread_counts:
  "(\<not> fileExists ns ''Formulas.exe'' None \<longrightarrow>
      getGrowThreads ns tgt =
        js_ceil (growthAnalyzeDynamic ns tgt (js_div (moneyMax tgt) (js_max (moneyAvailable tgt) (Fin 1))))) \<and>
   (fileExists ns ''Formulas.exe'' None \<longrightarrow>
      getGrowThreads ns tgt =
        js_ceil (formulas_hacking_growThreads ns
                   ((server tgt)\<lparr>server_moneyAvailable := moneyAvailable tgt,
                                 server_hackDifficulty := hackDifficulty tgt\<rparr>)
                   (getPlayer ns) (moneyMax tgt))) \<and>
   (moneyAvailable tgt = Fin 0 \<longrightarrow>
      js_div (moneyMax tgt) (js_max (moneyAvailable tgt) (Fin 1)) = moneyMax tgt) \<and>
   calculateThreads ns mets ! 2 =
     js_floor (growthAnalyzeDynamic ns (target mets) (js_add (Fin 1) (greed mets))) \<and>
   calculateThreads ns (mets\<lparr>target := (target mets)\<lparr>moneyMax := a, moneyAvailable := b\<rparr>\<rparr>) =
     calculateThreads ns mets"
proof (intro conjI impI)
  show "calculateThreads ns (mets\<lparr>target := (target mets)\<lparr>moneyMax := a, moneyAvailable := b\<rparr>\<rparr>) =
     calculateThreads ns mets"
    by (simp add: calculateThreads_def getHackThreads_def getHackEffect_def growthAnalyzeDynamic_def Let_def)
qed (simp_all add: getGrowThreads_def createMockServer_def calculateThreads_def Let_def js_div_one)

theorem grow_thread_counts_witness:
  "getGrowThreads demoNS drainedTarget = js_ceil (growthAnalyzeDynamic demoNS drainedTarget (Fin 1000000)) \<and>
   getGrowThreads oracleNS drainedTarget = Fin 1810"
proof -
  have a: "\<not> fileExists demoNS ''Formulas.exe'' None" "moneyAvailable drainedTarget = Fin 0"
    "moneyMax drainedTarget = Fin 1000000"
    by (simp_all add: drainedTarget_def demo_defs)
  have b: "fileExists oracleNS ''Formulas.exe'' None"
    "formulas_hacking_growThreads oracleNS
                   ((server drainedTarget)\<lparr>server_moneyAvailable := moneyAvailable drainedTarget,
                                 server_hackDifficulty := hackDifficulty drainedTarget\<rparr>)
                   (getPlayer oracleNS) (moneyMax drainedTarget) = Fin 1809.5"
    by (simp_all add: oracleNS_def demo_defs)
  from a grow_thread_counts [of demoNS drainedTarget]
  have "getGrowThreads demoNS drainedTarget =
      js_ceil (growthAnalyzeDynamic demoNS drainedTarget (Fin 1000000))"
    by metis
  moreover from b grow_thread_counts [of oracleNS drainedTarget]
  have "getGrowThreads oracleNS drainedTarget = js_ceil (Fin 1809.5)"
    by metis
  moreover have "\<lceil>1809.5 :: real\<rceil> = 1810" by (rule ceiling_unique) simp_all
  ultimately show ?thesis by simp
qed

text \<open>
  For the drained example the analytic estimate is \<open>ln 1000000 / ln 1.003\<close>, more
  than 2000 threads.
\<close>

lemma ln_million: "6 < ln (1000000 :: real)"
proof -
  have "exp (6 :: real) = exp 1 ^ 6" using exp_of_nat_mult [of 6 "1::real"] by simp
  also have "\<dots> \<le> 3 ^ 6" by (intro power_mono exp_le) simp
  also have "\<dots> < (1000000 :: real)" by simp
  also have "(1000000 :: real) = exp (ln 1000000)" by simp
  finally show ?thesis by (rule exp_less_cancel)
qed

lemma drained_estimate:
  assumes "getServerSecurityLevel ns (hostname (server drainedTarget)) = Fin 1"
    and "hacking_grow (mults (getPlayer ns)) = Fin 1"
    and "getServerGrowth ns (hostname (server drainedTarget)) = Fin 100"
  shows "\<exists>q. growthAnalyzeDynamic ns drainedTarget (Fin 1000000) = Fin q \<and> 2000 < q"
proof -
  have "growthAnalyzeDynamic ns drainedTarget (Fin 1000000) =
      Fin (ln 1000000 / (ln (min (1 + 0.003 / 1) 1.0035) * 1 * (100 / 100)))"
    using assms by (intro growthAnalyzeDynamic_Fin) simp_all
  then have e: "growthAnalyzeDynamic ns drainedTarget (Fin 1000000) = Fin (ln 1000000 / ln 1.003)"
    by simp
  have "ln (1 + 0.003 :: real) \<le> 0.003" by (rule ln_add_one_self_le_self) simp
  then have u: "ln (1.003 :: real) \<le> 0.003" by simp
  have p: "0 < ln (1.003 :: real)" by simp
  have "2000 * ln (1.003 :: real) \<le> 6" using u by simp
  also have "\<dots> < ln (1000000 :: real)" by (rule ln_million)
  finally have "2000 < ln (1000000 :: real) / ln 1.003"
    using p by (simp add: pos_less_divide_eq)
  with e show ?thesis by blast
qed

text \<open>
  C5 as stated fails twice. At growth 200 and a multiplier of 1.003 the claimed
  count is \<open>\<lceil>0.5\<rceil> = 1\<close> and the batch vector holds \<open>\<lfloor>0.5\<rfloor> = 0\<close>. And with the
  exact formulas \<open>getGrowThreads\<close> returns the ceiling of their answer, 1810 for the
  drained example, where the ceiling of the analytic estimate is above 2000.
\<close>

theorem grow_thread_counts_counterexample:
  "js_ceil (growthAnalyzeDynamic halfNS grownTarget
      (js_div (moneyMax grownTarget) (js_max (moneyAvailable grownTarget) (Fin 1)))) = Fin 1 \<and>
   calculateThreads halfNS grownMetrics ! 2 = Fin 0 \<and>
   calculateThreads halfNS grownMetrics ! 2 \<noteq>
     js_ceil (growthAnalyzeDynamic halfNS (target grownMetrics)
       (js_div (moneyMax (target grownMetrics)) (js_max (moneyAvailable (target grownMetrics)) (Fin 1)))) \<and>
   getGrowThreads oracleNS drainedTarget = Fin 1810 \<and>
   getGrowThreads oracleNS drainedTarget \<noteq>
     js_ceil (growthAnalyzeDynamic oracleNS drainedTarget
       (js_div (moneyMax drainedTarget) (js_max (moneyAvailable drainedTarget) (Fin 1))))"
proof -
  have h: "growthAnalyzeDynamic halfNS grownTarget (Fin 1.003) = Fin 0.5"
    by (rule half_thread) (simp_all add: halfNS_def grownTarget_def demo_defs)
  have m1: "js_div (moneyMax grownTarget) (js_max (moneyAvailable grownTarget) (Fin 1)) = Fin 1.003"
    by (simp add: grownTarget_def demo_defs)
  have m2: "js_add (Fin 1) (greed grownMetrics) = Fin 1.003" "target grownMetrics = grownTarget"
    by (simp_all add: grownMetrics_def)
  have c1: "js_ceil (growthAnalyzeDynamic halfNS grownTarget
      (js_div (moneyMax grownTarget) (js_max (moneyAvailable grownTarget) (Fin 1)))) = Fin 1"
    by (simp only: m1 h) (simp add: ceiling_unique)
  have c2: "calculateThreads halfNS grownMetrics ! 2 = Fin 0"
    unfolding calculateThreads_def Let_def by (simp only: m2 h) simp
  have m3: "js_div (moneyMax drainedTarget) (js_max (moneyAvailable drainedTarget) (Fin 1)) = Fin 1000000"
    by (simp add: drainedTarget_def demo_defs)
  obtain q where q: "growthAnalyzeDynamic oracleNS drainedTarget (Fin 1000000) = Fin q" "2000 < q"
    using drained_estimate [of oracleNS] by (auto simp add: oracleNS_def drainedTarget_def demo_defs)
  have "\<lceil>q\<rceil> \<noteq> 1810" using q(2) by (simp add: ceiling_eq_iff)
  then have c3: "js_ceil (growthAnalyzeDynamic oracleNS drainedTarget
      (js_div (moneyMax drainedTarget) (js_max (moneyAvailable drainedTarget) (Fin 1)))) \<noteq> Fin 1810"
    by (simp only: m3 q(1)) simp
  have "\<lceil>1809.5 :: real\<rceil> = 1810" by (rule ceiling_unique) simp_all
  then have c4: "getGrowThreads oracleNS drainedTarget = Fin 1810"
    by (simp add: getGrowThreads_def createMockServer_def Let_def oracleNS_def drainedTarget_def demo_defs)
  from c1 c2 c3 c4 show ?thesis by (simp add: m2(2))
qed

end
